theory Spec2Isabelle
  imports Main
begin

section \<open>JavaScript values\<close>

text \<open>
  The candidate objects handed to the validator are JSON-like data. Numbers are
  modelled as integers (non-integral numbers, NaN and the infinities are outside the
  model), strings as lists of 8-bit characters. Arrays and plain objects carry the
  identity of the JavaScript object (\<open>ref\<close>), because \<open>===\<close> and \<open>indexOf\<close>
  compare objects by reference; a plain object is the list of its own enumerable
  properties in enumeration order.
\<close>

datatype scalar = Undefined | Null | Bool bool | Num int | Str string

datatype jsval =
    V scalar
  | Arr (ref: nat) (elements: "jsval list")
  | Obj (ref: nat) (properties: "(string \<times> jsval) list")

text \<open>
  A template node is a literal scalar, a literal array, a plain map from keys to
  template nodes, or a function. The functions that occur in templates are the
  closures returned by the combinators of the library (one constructor per closure,
  named after the function expression that creates it, holding the variables the
  closure captures) and named side-effect-free predicates supplied by the caller
  (\<open>Prim\<close>, for example lodash's \<open>isString\<close>). Combinator arguments that the
  closure calls are predicates by type, so the model has no call of a non-function.
\<close>

datatype predicate =
    Prim string "jsval \<Rightarrow> bool"
  | OptionalFn predicate
  | NullableFn predicate
  | ExistsFn "tmpl list"
  | ObjectFn "(string \<times> tmpl) list" "scalar option"
  | ArrayFn "tmpl list" scalar
  | ArrFn predicate "int option" "int option"
  | HashFn predicate "int option" "int option"
  | AndFn "predicate list"
  | OrFn "predicate list"
  | ChoiceFn "jsval list"
and tmpl =
    Lit scalar
  | TArr "tmpl list"
  | TObj "(string \<times> tmpl) list"
  | Fn predicate

text \<open>
  The records collected in the module variable \<open>messages\<close>: the info object of
  the event, extended with the event type by the two \<open>emitter.on\<close> handlers.
\<close>

datatype message =
    InvalidKeys (templateKeys: "string list") (objectKeys: "string list")
  | InvalidValue (key: string) (templateNode: tmpl) (objectNode: jsval)

datatype error = Thrown string

subsection \<open>The lodash tests used by the library\<close>

fun isPlainObject :: "jsval \<Rightarrow> bool" where
  "isPlainObject (Obj r kvs) = True"
| "isPlainObject v = False"

fun isArray :: "jsval \<Rightarrow> bool" where
  "isArray (Arr r xs) = True"
| "isArray v = False"

fun isUndefined :: "jsval \<Rightarrow> bool" where
  "isUndefined (V Undefined) = True"
| "isUndefined v = False"

fun isNull :: "jsval \<Rightarrow> bool" where
  "isNull (V Null) = True"
| "isNull v = False"

fun isString :: "jsval \<Rightarrow> bool" where
  "isString (V (Str s)) = True"
| "isString v = False"

fun isNumber :: "jsval \<Rightarrow> bool" where
  "isNumber (V (Num n)) = True"
| "isNumber v = False"

text \<open>The same tests on a template node (\<open>recObj\<close> inspects its template).\<close>

fun isPlainObject_tmpl :: "tmpl \<Rightarrow> bool" where
  "isPlainObject_tmpl (TObj m) = True"
| "isPlainObject_tmpl t = False"


text \<open>Truthiness of a flag such as \<open>loose\<close> or \<open>recursive\<close>.\<close>

fun truthy :: "scalar \<Rightarrow> bool" where
  "truthy Undefined = False"
| "truthy Null = False"
| "truthy (Bool b) = b"
| "truthy (Num n) = (n \<noteq> 0)"
| "truthy (Str s) = (s \<noteq> [])"

text \<open>\<open>object[key]\<close>: the value of the property, \<open>undefined\<close> when it is absent.\<close>

definition get_property :: "(string \<times> jsval) list \<Rightarrow> string \<Rightarrow> jsval" where
  "get_property kvs k = (case map_of kvs k of None \<Rightarrow> V Undefined | Some v \<Rightarrow> v)"

text \<open>\<open>===\<close>: scalars by value, arrays and objects by reference.\<close>

fun strict_equal :: "jsval \<Rightarrow> jsval \<Rightarrow> bool" where
  "strict_equal (V a) (V b) = (a = b)"
| "strict_equal (Arr r xs) (Arr r' ys) = (r = r')"
| "strict_equal (Obj r xs) (Obj r' ys) = (r = r')"
| "strict_equal a b = False"

text \<open>\<open>Array.prototype.indexOf\<close>: the first index whose element is \<open>===\<close> to the value, or -1.\<close>

fun indexOf :: "jsval list \<Rightarrow> jsval \<Rightarrow> int" where
  "indexOf [] v = -1"
| "indexOf (x # xs) v =
     (if strict_equal x v then 0
      else (let i = indexOf xs v in if i = -1 then -1 else i + 1))"

text \<open>\<open>'' + i\<close> for an array index: its decimal digits.\<close>

function string_of_nat :: "nat \<Rightarrow> string" where
  "string_of_nat n =
     (if n < 10 then [''0123456789'' ! n]
      else string_of_nat (n div 10) @ [''0123456789'' ! (n mod 10)])"
  by pat_completeness auto
termination
  by (relation "measure id") auto

declare string_of_nat.simps [simp del]

text \<open>
  The loop \<open>for (i = 0; i < values.length; i++) o['' + i] = values[i]\<close> that
  \<open>recObj\<close> uses to convert an array to an object, started at index \<open>i\<close>.
\<close>

fun to_object :: "nat \<Rightarrow> 'a list \<Rightarrow> (string \<times> 'a) list" where
  "to_object i [] = []"
| "to_object i (x # xs) = (string_of_nat i, x) # to_object (Suc i) xs"

section \<open>The combinators\<close>


definition nullable :: "predicate \<Rightarrow> predicate" where
  "nullable func = NullableFn func"

definition exists :: "tmpl list \<Rightarrow> predicate" where
  "exists args = ExistsFn args"

definition obj :: "(string \<times> tmpl) list \<Rightarrow> scalar option \<Rightarrow> predicate" where
  "obj template loose = ObjectFn template loose"

definition arr :: "predicate \<Rightarrow> int option \<Rightarrow> int option \<Rightarrow> predicate" where
  "arr func minItems maxItems = ArrFn func minItems maxItems"

definition hash :: "predicate \<Rightarrow> int option \<Rightarrow> int option \<Rightarrow> predicate" where
  "hash func minItems maxItems = HashFn func minItems maxItems"

definition and_pred :: "predicate list \<Rightarrow> predicate" where
  "and_pred funcs = AndFn funcs"

definition or_pred :: "predicate list \<Rightarrow> predicate" where
  "or_pred funcs = OrFn funcs"

definition choice :: "jsval list \<Rightarrow> predicate" where
  "choice options = ChoiceFn options"

subsection \<open>recObj\<close>

text \<open>
  \<open>recObj\<close> assigns to the properties of the template it is given. The body of its
  \<open>for ... in\<close> loop computes the new value of \<open>template[key]\<close>
  (\<open>recObj_value\<close>), and \<open>recObj_keys\<close> is the loop over the own properties. The
  nested call \<open>recObj(template[key], loose)\<close> is guarded by \<open>isPlainObject\<close>, so
  it cannot throw and its result is \<open>obj\<close> of the rewritten nested map. An array
  value is replaced by the closure \<open>array\<close>, which captures the array.
\<close>

fun recObj_value :: "scalar \<Rightarrow> tmpl \<Rightarrow> tmpl"
and recObj_keys :: "scalar \<Rightarrow> (string \<times> tmpl) list \<Rightarrow> (string \<times> tmpl) list" where
  "recObj_value loose (TObj m) = Fn (ObjectFn (recObj_keys loose m) (Some loose))"
| "recObj_value loose (TArr templateValues) = Fn (ArrayFn templateValues loose)"
| "recObj_value loose (Lit s) = Lit s"
| "recObj_value loose (Fn p) = Fn p"
| "recObj_keys loose [] = []"
| "recObj_keys loose ((k, v) # rest) = (k, recObj_value loose v) # recObj_keys loose rest"

text \<open>
  \<open>recObj(template, loose)\<close> throws on anything but a plain object. Otherwise it
  returns the properties of the template object as they are after the call,
  together with the predicate \<open>obj(template, loose)\<close> over that same object.
\<close>

definition recObj :: "tmpl \<Rightarrow> scalar \<Rightarrow> error + ((string \<times> tmpl) list \<times> predicate)" where
  "recObj template loose =
     (if \<not> isPlainObject_tmpl template
      then Inl (Thrown ''recObj must be called on a plain object'')
      else (case template of
              TObj m \<Rightarrow> (let m' = recObj_keys loose m in Inr (m', obj m' (Some loose)))
            | _ \<Rightarrow> Inl (Thrown ''recObj must be called on a plain object'')))"

section \<open>Calling a predicate\<close>

definition on_invalid_keys :: "string list \<Rightarrow> string list \<Rightarrow> message list \<Rightarrow> message list" where
  "on_invalid_keys tks oks messages = messages @ [InvalidKeys tks oks]"

definition on_invalid_value :: "string \<Rightarrow> tmpl \<Rightarrow> jsval \<Rightarrow> message list \<Rightarrow> message list" where
  "on_invalid_value k node v messages = messages @ [InvalidValue k node v]"

text \<open>
  Modelled from the spec: the comparison the engine makes at a literal leaf of a
  template, which is not among the source files either. A literal scalar matches
  the value equal to it (section 8 of the specification). The specification has no
  words for a literal array left in a template; compared as the scalars are, with
  \<open>===\<close>, it is an object of the template's own and matches no candidate value.
\<close>

fun literal_equal :: "tmpl \<Rightarrow> jsval \<Rightarrow> bool" where
  "literal_equal (Lit s) v = (v = V s)"
| "literal_equal t v = False"

text \<open>The termination measure of the evaluator: a weight that \<open>recObj\<close> does not increase.\<close>

fun wt_pred :: "predicate \<Rightarrow> nat" and wt :: "tmpl \<Rightarrow> nat" where
  "wt_pred (Prim n p) = 1"
| "wt_pred (OptionalFn f) = 1 + wt_pred f"
| "wt_pred (NullableFn f) = 1 + wt_pred f"
| "wt_pred (ExistsFn a) = 1"
| "wt_pred (ObjectFn m l) = 1 + sum_list (map (\<lambda>e. wt (snd e)) m)"
| "wt_pred (ArrayFn ts l) = 2 + sum_list (map wt ts)"
| "wt_pred (ArrFn f a b) = 1 + wt_pred f"
| "wt_pred (HashFn f a b) = 1 + wt_pred f"
| "wt_pred (AndFn fs) = 1 + sum_list (map wt_pred fs)"
| "wt_pred (OrFn fs) = 1 + sum_list (map wt_pred fs)"
| "wt_pred (ChoiceFn os) = 1"
| "wt (Lit s) = 1"
| "wt (TArr ts) = 3 + sum_list (map wt ts)"
| "wt (TObj m) = 3 + sum_list (map (\<lambda>e. wt (snd e)) m)"
| "wt (Fn p) = 1 + wt_pred p"

lemma wt_recObj:
  "wt (recObj_value loose t) \<le> wt t"
  "sum_list (map (\<lambda>e. wt (snd e)) (recObj_keys loose m)) \<le> sum_list (map (\<lambda>e. wt (snd e)) m)"
  by (induction loose t and loose m rule: recObj_value_recObj_keys.induct) auto

lemma wt_to_object: "sum_list (map (\<lambda>e. wt (snd e)) (to_object i ts)) = sum_list (map wt ts)"
  by (induction ts arbitrary: i) auto

lemma wt_pos: "0 < wt t" "0 < wt_pred p"
  by (cases t; simp) (cases p; simp)

lemma wt_ge1: "Suc 0 \<le> wt t" "Suc 0 \<le> wt_pred p"
  using wt_pos(1)[of t] wt_pos(2)[of p] by simp_all

lemma wt_arr2:
  "2 * sum_list (map (\<lambda>e. wt (snd e)) (recObj_keys loose (to_object i ts)))
     \<le> Suc (2 * sum_list (map wt ts))"
  using wt_recObj(2)[of loose "to_object i ts"] by (simp add: wt_to_object)

lemma wt_node: "2 * wt node - Suc 0 < 2 * wt node + n"
  using wt_pos(1)[of node] by simp

text \<open>
  \<open>call f v messages\<close> is the call \<open>f(v)\<close> of a predicate of the library: its
  boolean result and the module variable \<open>messages\<close> after the call. The first
  five functions are the closures of the source and their loops:
  \<^item> \<open>call\<close>: the bodies of \<open>optional\<close>, \<open>nullable\<close>, \<open>exists\<close>, \<open>object\<close>,
    \<open>array\<close> (the closure made by \<open>recObj\<close>: it converts the candidate array
    to a fresh object \<open>obj2\<close>, whose identity no predicate sees, and calls
    \<open>recObj(obj1, loose)(obj2)\<close>; \<open>obj1\<close> is a plain object, so \<open>recObj\<close>
    returns \<open>obj\<close> of its rewritten properties, and a later call, which finds
    \<open>obj1\<close> rewritten, builds the same predicate: lemmas \<open>array_closure_call\<close>
    and \<open>array_closure_again\<close> below; the assignments of this \<open>recObj\<close> to the
    maps that \<open>obj1\<close> shares with the array are not part of the result of
    \<open>call\<close>), \<open>arr\<close>, \<open>hash\<close>, \<open>and\<close>, \<open>or\<close> and \<open>choice\<close>;
  \<^item> \<open>every\<close>: lodash's \<open>_.every(list, func)\<close>, which stops at the first element
    that fails;
  \<^item> \<open>each_value\<close>: the \<open>_.each\<close> of \<open>hash\<close>, which visits every value and
    clears \<open>valid\<close> on a failure;
  \<^item> \<open>and_loop\<close>, \<open>or_loop\<close>: the \<open>for\<close> loops of \<open>and\<close> and \<open>or\<close>.
\<close>

text \<open>
  Modelled from the spec: \<open>congruence_test\<close>, \<open>test_keys\<close> and \<open>test_node\<close>, the
  last three functions of the block, stand for \<open>congruence.similar\<close>
  (\<open>congruence_test True\<close>) and \<open>congruence.congruent\<close> (\<open>congruence_test False\<close>)
  of the npm package congruence, which the library requires and which is not among
  the source files. A candidate that is not a plain map fails without a record. In
  exact mode an object key that the template lacks fails the call with an
  \<open>invalid:keys\<close> event; in loose mode such keys are permitted (section 4.1 of the
  specification, \<open>object\<close>). Then the template keys are tested in order, a nested
  map by recursion, a predicate by calling it on \<open>object[key]\<close>, and the first
  key whose predicate returns false emits an \<open>invalid:value\<close> event and fails the
  call (section 4.3, steps 4 and 5). A key that the object lacks is tested on
  \<open>undefined\<close>: sections 4.1 and 8 let the key of \<open>optional\<close> be absent, and the
  docstrings of the source say the same (\<open>opt\<close>: this property is optional;
  \<open>nullable\<close> and \<open>exists\<close>: this property must exist). Section 4.3, step 3,
  which makes every missing key a key-set mismatch, contradicts them and is not
  followed. The events reach the handlers of the source, \<open>on_invalid_keys\<close> and
  \<open>on_invalid_value\<close>, which push the record.
\<close>

function (sequential)
    call :: "predicate \<Rightarrow> jsval \<Rightarrow> message list \<Rightarrow> bool \<times> message list"
and every :: "predicate \<Rightarrow> jsval list \<Rightarrow> message list \<Rightarrow> bool \<times> message list"
and each_value :: "predicate \<Rightarrow> (string \<times> jsval) list \<Rightarrow> bool \<Rightarrow> message list \<Rightarrow> bool \<times> message list"
and and_loop :: "predicate list \<Rightarrow> jsval \<Rightarrow> message list \<Rightarrow> bool \<times> message list"
and or_loop :: "predicate list \<Rightarrow> jsval \<Rightarrow> message list \<Rightarrow> bool \<times> message list"
and congruence_test :: "bool \<Rightarrow> (string \<times> tmpl) list \<Rightarrow> jsval \<Rightarrow> message list \<Rightarrow> bool \<times> message list"
and test_keys :: "bool \<Rightarrow> (string \<times> tmpl) list \<Rightarrow> (string \<times> jsval) list \<Rightarrow> message list \<Rightarrow> bool \<times> message list"
and test_node :: "bool \<Rightarrow> string \<Rightarrow> tmpl \<Rightarrow> jsval \<Rightarrow> message list \<Rightarrow> bool \<times> message list"
where
  "call (Prim name p) v ms = (p v, ms)"
| "call (OptionalFn func) v ms = (if isUndefined v then (True, ms) else call func v ms)"
| "call (NullableFn func) v ms = (if isNull v then (True, ms) else call func v ms)"
| "call (ExistsFn args) v ms = (\<not> isUndefined v, ms)"
| "call (ObjectFn template loose) v ms =
     (if \<not> isPlainObject v then (False, ms)
      else if (case loose of None \<Rightarrow> False | Some l \<Rightarrow> truthy l)
           then congruence_test True template v ms
           else congruence_test False template v ms)"
| "call (ArrayFn templateValues loose) v ms =
     (case v of
        Arr r xs \<Rightarrow>
          call (ObjectFn (recObj_keys loose (to_object 0 templateValues)) (Some loose))
            (Obj 0 (to_object 0 xs)) ms
      | _ \<Rightarrow> (False, ms))"
| "call (ArrFn func minItems maxItems) v ms =
     (case v of
        Arr r xs \<Rightarrow>
          if (case minItems of None \<Rightarrow> 0 | Some n \<Rightarrow> n) \<le> int (length xs)
             \<and> (case maxItems of None \<Rightarrow> True | Some n \<Rightarrow> int (length xs) \<le> n)
          then every func xs ms else (False, ms)
      | _ \<Rightarrow> (False, ms))"
| "call (HashFn func minItems maxItems) v ms =
     (case v of
        Obj r kvs \<Rightarrow>
          if (case minItems of None \<Rightarrow> 0 | Some n \<Rightarrow> n) \<le> int (length kvs)
             \<and> (case maxItems of None \<Rightarrow> True | Some n \<Rightarrow> int (length kvs) \<le> n)
          then each_value func kvs True ms else (False, ms)
      | _ \<Rightarrow> (False, ms))"
| "call (AndFn funcs) v ms = and_loop funcs v ms"
| "call (OrFn funcs) v ms = or_loop funcs v ms"
| "call (ChoiceFn options) v ms = (indexOf options v \<noteq> -1, ms)"
| "every func [] ms = (True, ms)"
| "every func (x # xs) ms =
     (case call func x ms of (r, ms') \<Rightarrow> if r then every func xs ms' else (False, ms'))"
| "each_value func [] valid ms = (valid, ms)"
| "each_value func ((k, x) # rest) valid ms =
     (case call func x ms of
        (r, ms') \<Rightarrow> each_value func rest (if \<not> r then False else valid) ms')"
| "and_loop [] v ms = (True, ms)"
| "and_loop (f # fs) v ms =
     (case call f v ms of (r, ms') \<Rightarrow> if \<not> r then (False, ms') else and_loop fs v ms')"
| "or_loop [] v ms = (False, ms)"
| "or_loop (f # fs) v ms =
     (case call f v ms of (r, ms') \<Rightarrow> if r then (True, ms') else or_loop fs v ms')"
| "congruence_test loose template object ms =
     (case object of
        Obj r kvs \<Rightarrow>
          (if \<not> loose \<and> \<not> set (map fst kvs) \<subseteq> set (map fst template)
           then (False, on_invalid_keys (map fst template) (map fst kvs) ms)
           else test_keys loose template kvs ms)
      | _ \<Rightarrow> (False, ms))"
| "test_keys loose [] kvs ms = (True, ms)"
| "test_keys loose ((k, node) # rest) kvs ms =
     (case test_node loose k node (get_property kvs k) ms of
        (r, ms') \<Rightarrow> if r then test_keys loose rest kvs ms' else (False, ms'))"
| "test_node loose k (TObj sub) v ms = congruence_test loose sub v ms"
| "test_node loose k (Fn p) v ms =
     (case call p v ms of
        (r, ms') \<Rightarrow> if r then (True, ms') else (False, on_invalid_value k (Fn p) v ms'))"
| "test_node loose k node v ms =
     (if literal_equal node v then (True, ms) else (False, on_invalid_value k node v ms))"
  by pat_completeness auto

termination
  apply (relation "inv_image (less_than <*lex*> less_than)
    (case_sum
      (case_sum
        (case_sum (\<lambda>(p, v, ms). (2 * wt_pred p, 0))
                  (\<lambda>(f, xs, ms). (2 * wt_pred f + 1, length xs)))
        (case_sum (\<lambda>(f, kvs, valid, ms). (2 * wt_pred f + 1, length kvs))
                  (\<lambda>(fs, v, ms). (2 * sum_list (map wt_pred fs) + 1, 0))))
      (case_sum
        (case_sum (\<lambda>(fs, v, ms). (2 * sum_list (map wt_pred fs) + 1, 0))
                  (\<lambda>(loose, m, object, ms). (2 * sum_list (map (\<lambda>e. wt (snd e)) m) + 1, 0)))
        (case_sum (\<lambda>(loose, m, kvs, ms). (2 * sum_list (map (\<lambda>e. wt (snd e)) m), 0))
                  (\<lambda>(loose, k, node, v, ms). (2 * wt node - 1, 0)))))")
  apply (intro wf_inv_image wf_lex_prod wf_less_than)
  apply (simp_all add: wt_pos less_Suc_eq_le wt_ge1 wt_arr2 wt_node)
  done

text \<open>
  Modelled from the spec: \<open>congruence.similar\<close> and \<open>congruence.congruent\<close>, the
  two entry points of the engine (its loose and its exact mode),
  under the names by which \<open>validateObject\<close> calls them; the event emitter they
  are handed is the module's own, whose handlers push onto \<open>messages\<close>.
\<close>

definition similar :: "(string \<times> tmpl) list \<Rightarrow> jsval \<Rightarrow> message list \<Rightarrow> bool \<times> message list" where
  "similar template object ms = congruence_test True template object ms"

definition congruent :: "(string \<times> tmpl) list \<Rightarrow> jsval \<Rightarrow> message list \<Rightarrow> bool \<times> message list" where
  "congruent template object ms = congruence_test False template object ms"

section \<open>validateObject and the collected messages\<close>

text \<open>
  The outcome of \<open>validateObject(template, object, loose, recursive)\<close>: what
  the call returns or throws, the properties of the caller's template object as
  the assignments of \<open>recObj\<close> in this call leave them, and the module variable
  \<open>messages\<close> after the call. The last argument is \<open>messages\<close> before the call.
  The template is a plain map by type, given by its properties; the engine is
  specified for such templates only.

  Templates are trees of values here. In the source the closure \<open>array\<close> keeps, in
  \<open>obj1\<close>, the plain maps that are elements of the array it was made from, and its
  call \<open>recObj(obj1, loose)\<close> assigns to the properties of these maps, so that a
  validation that calls such a closure changes maps that the caller's array still
  holds. \<open>template_after\<close> does not show these later assignments: it is the
  template of the source for templates in which no array and no closure \<open>array\<close>
  occurs (\<open>array_free_keys\<close> below), and the statements about it are made for
  these.
\<close>

record outcome =
  returned :: "error + bool"
  template_after :: "(string \<times> tmpl) list"
  messages_after :: "message list"

definition validateObject ::
  "(string \<times> tmpl) list \<Rightarrow> jsval \<Rightarrow> scalar \<Rightarrow> scalar \<Rightarrow> message list \<Rightarrow> outcome" where
  "validateObject template object loose recursive messages0 =
     (let messages = [] in
      if \<not> isPlainObject object
      then \<lparr>returned = Inr False, template_after = template, messages_after = messages\<rparr>
      else if truthy recursive
      then (case recObj (TObj template) loose of
              Inl e \<Rightarrow> \<lparr>returned = Inl e, template_after = template, messages_after = messages\<rparr>
            | Inr (template', f) \<Rightarrow>
                (case call f object messages of
                   (r, ms) \<Rightarrow> \<lparr>returned = Inr r, template_after = template', messages_after = ms\<rparr>))
      else (case (if truthy loose then similar template object messages
                  else congruent template object messages) of
              (r, ms) \<Rightarrow> \<lparr>returned = Inr r, template_after = template, messages_after = ms\<rparr>))"

definition getMessages :: "message list \<Rightarrow> message list" where
  "getMessages messages = messages"

subsection \<open>Rendering\<close>

text \<open>\<open>Array.prototype.join\<close> on an array of strings.\<close>

fun js_join :: "string \<Rightarrow> string list \<Rightarrow> string" where
  "js_join sep [] = []"
| "js_join sep [x] = x"
| "js_join sep (x # y # ys) = x @ sep @ js_join sep (y # ys)"

text \<open>lodash's \<open>_.difference(a, b)\<close>: the elements of \<open>a\<close> that are not in \<open>b\<close>.\<close>

definition difference :: "string list \<Rightarrow> string list \<Rightarrow> string list" where
  "difference a b = filter (\<lambda>x. x \<notin> set b) a"

text \<open>
  String concatenation with a value that may be \<open>undefined\<close> (\<open>None\<close>): \<open>+\<close>
  writes it as the word undefined, \<open>join\<close> as the empty string.
\<close>

fun plus_string :: "string option \<Rightarrow> string" where
  "plus_string None = ''undefined''"
| "plus_string (Some s) = s"

fun join_item :: "string option \<Rightarrow> string" where
  "join_item None = []"
| "join_item (Some s) = s"

text \<open>
  \<open>JSON.stringify\<close> on data, a host function: \<open>undefined\<close> has no JSON text, an
  \<open>undefined\<close> array element is written null, an \<open>undefined\<close> property is left
  out. The quote, the backslash and the control characters of a string are escaped.
  An integer is written in full below \<open>10^21\<close> and in exponent form from there
  on (\<open>1e+21\<close>), the form being modelled for the integers whose own digits,
  trailing zeros apart, are the shortest that denote the number.
\<close>

definition exponent_form :: "nat \<Rightarrow> string" where
  "exponent_form n =
     (let ds = string_of_nat n;
          significant = rev (dropWhile (\<lambda>c. c = CHR ''0'') (rev ds))
      in (case significant of
            [] \<Rightarrow> []
          | d # rest \<Rightarrow> d # (if rest = [] then [] else CHR ''.'' # rest))
         @ ''e+'' @ string_of_nat (length ds - 1))"

definition number_digits :: "nat \<Rightarrow> string" where
  "number_digits n = (if n < 10 ^ 21 then string_of_nat n else exponent_form n)"

definition string_of_int :: "int \<Rightarrow> string" where
  "string_of_int i = (if i < 0 then CHR ''-'' # number_digits (nat (- i)) else number_digits (nat i))"

definition json_escape :: "char \<Rightarrow> string" where
  "json_escape c =
     (if c = CHR 0x22 then [CHR 0x5C, CHR 0x22]
      else if c = CHR 0x5C then [CHR 0x5C, CHR 0x5C]
      else if c = CHR 0x08 then [CHR 0x5C, CHR ''b'']
      else if c = CHR 0x09 then [CHR 0x5C, CHR ''t'']
      else if c = CHR 0x0A then [CHR 0x5C, CHR ''n'']
      else if c = CHR 0x0C then [CHR 0x5C, CHR ''f'']
      else if c = CHR 0x0D then [CHR 0x5C, CHR ''r'']
      else if of_char c < (32 :: nat)
      then [CHR 0x5C, CHR ''u'', CHR ''0'', CHR ''0'',
            ''0123456789abcdef'' ! (of_char c div 16), ''0123456789abcdef'' ! (of_char c mod 16)]
      else [c])"

definition json_quote :: "string \<Rightarrow> string" where
  "json_quote s = CHR 0x22 # concat (map json_escape s) @ [CHR 0x22]"

fun JSON_stringify :: "jsval \<Rightarrow> string option"
and stringify_elements :: "jsval list \<Rightarrow> string list"
and stringify_properties :: "(string \<times> jsval) list \<Rightarrow> string list" where
  "JSON_stringify (V Undefined) = None"
| "JSON_stringify (V Null) = Some ''null''"
| "JSON_stringify (V (Bool b)) = Some (if b then ''true'' else ''false'')"
| "JSON_stringify (V (Num n)) = Some (string_of_int n)"
| "JSON_stringify (V (Str s)) = Some (json_quote s)"
| "JSON_stringify (Arr r xs) = Some (''['' @ js_join '','' (stringify_elements xs) @ '']'')"
| "JSON_stringify (Obj r kvs) = Some (''{'' @ js_join '','' (stringify_properties kvs) @ ''}'')"
| "stringify_elements [] = []"
| "stringify_elements (x # xs) =
     (case JSON_stringify x of None \<Rightarrow> ''null'' | Some s \<Rightarrow> s) # stringify_elements xs"
| "stringify_properties [] = []"
| "stringify_properties ((k, x) # rest) =
     (case JSON_stringify x of
        None \<Rightarrow> stringify_properties rest
      | Some s \<Rightarrow> (json_quote k @ '':'' @ s) # stringify_properties rest)"

text \<open>
  \<open>getTemplateDescription\<close> on a data value (an argument such as the options of
  \<open>choice\<close>): a plain object, an array, or else \<open>JSON.stringify\<close>.
\<close>

fun describe_value :: "jsval \<Rightarrow> string option"
and describe_elements :: "jsval list \<Rightarrow> string list"
and describe_properties :: "(string \<times> jsval) list \<Rightarrow> string list" where
  "describe_value (V s) = JSON_stringify (V s)"
| "describe_value (Obj r kvs) = Some (''{'' @ js_join '','' (describe_properties kvs) @ ''}'')"
| "describe_value (Arr r xs) = Some (''['' @ js_join '','' (describe_elements xs) @ '']'')"
| "describe_elements [] = []"
| "describe_elements (x # xs) = join_item (describe_value x) # describe_elements xs"
| "describe_properties [] = []"
| "describe_properties ((k, x) # rest) =
     (k @ '': '' @ plus_string (describe_value x)) # describe_properties rest"

text \<open>
  \<open>getTemplateDescription\<close> on a template node. A function with a name is written
  as its name and its arguments (\<open>args\<close>, then \<open>extraDebugArgs\<close>); the closures
  carry the names of their function expressions, and a \<open>Prim\<close> carries no
  arguments. Of the optional arguments of \<open>obj\<close>, \<open>arr\<close> and \<open>hash\<close>, the ones
  that were passed are written. A missing minimum followed by a given maximum was
  passed as \<open>undefined\<close> or \<open>null\<close>; the assignment \<open>minItems = 0\<close> of the
  combinator writes through to the \<open>arguments\<close> object kept in \<open>f.args\<close>, so it
  is written 0. A function without a name falls through to \<open>JSON.stringify\<close>,
  which gives \<open>undefined\<close>. The closure \<open>array\<close> is written with the array it
  was made from, as that array is before the closure is called.
\<close>

fun bounds_args :: "int option \<Rightarrow> int option \<Rightarrow> string list" where
  "bounds_args None None = []"
| "bounds_args (Some a) None = [string_of_int a]"
| "bounds_args None (Some b) = [''0'', string_of_int b]"
| "bounds_args (Some a) (Some b) = [string_of_int a, string_of_int b]"

fun describe_predicate :: "predicate \<Rightarrow> string option"
and getTemplateDescription :: "tmpl \<Rightarrow> string option"
and describe_args :: "tmpl list \<Rightarrow> string list"
and describe_funcs :: "predicate list \<Rightarrow> string list"
and describe_items :: "tmpl list \<Rightarrow> string list"
and describe_keys :: "(string \<times> tmpl) list \<Rightarrow> string list" where
  "describe_predicate (Prim name p) = (if name \<noteq> [] then Some (name @ ''()'') else None)"
| "describe_predicate (OptionalFn func) =
     Some (''optional('' @ plus_string (describe_predicate func) @ '')'')"
| "describe_predicate (NullableFn func) =
     Some (''nullable('' @ plus_string (describe_predicate func) @ '')'')"
| "describe_predicate (ExistsFn args) =
     Some (''exists('' @ js_join '','' (describe_args args) @ '')'')"
| "describe_predicate (ObjectFn template loose) =
     Some (''object('' @ js_join '',''
       (plus_string (getTemplateDescription (TObj template))
        # (case loose of None \<Rightarrow> [] | Some l \<Rightarrow> [plus_string (JSON_stringify (V l))])) @ '')'')"
| "describe_predicate (ArrayFn templateValues loose) =
     Some (''array('' @ plus_string (getTemplateDescription (TArr templateValues)) @ '')'')"
| "describe_predicate (ArrFn func minItems maxItems) =
     Some (''arr('' @ js_join '',''
       (plus_string (describe_predicate func) # bounds_args minItems maxItems) @ '')'')"
| "describe_predicate (HashFn func minItems maxItems) =
     Some (''hash('' @ js_join '',''
       (plus_string (describe_predicate func) # bounds_args minItems maxItems) @ '')'')"
| "describe_predicate (AndFn funcs) = Some (''and('' @ js_join '','' (describe_funcs funcs) @ '')'')"
| "describe_predicate (OrFn funcs) = Some (''or('' @ js_join '','' (describe_funcs funcs) @ '')'')"
| "describe_predicate (ChoiceFn options) =
     Some (''choice('' @ plus_string (describe_value (Arr 0 options)) @ '')'')"
| "getTemplateDescription (Fn p) = describe_predicate p"
| "getTemplateDescription (TObj m) = Some (''{'' @ js_join '','' (describe_keys m) @ ''}'')"
| "getTemplateDescription (TArr ts) = Some (''['' @ js_join '','' (describe_items ts) @ '']'')"
| "getTemplateDescription (Lit s) = JSON_stringify (V s)"
| "describe_args [] = []"
| "describe_args (t # ts) = plus_string (getTemplateDescription t) # describe_args ts"
| "describe_funcs [] = []"
| "describe_funcs (f # fs) = plus_string (describe_predicate f) # describe_funcs fs"
| "describe_items [] = []"
| "describe_items (t # ts) = join_item (getTemplateDescription t) # describe_items ts"
| "describe_keys [] = []"
| "describe_keys ((k, t) # rest) =
     (k @ '': '' @ plus_string (getTemplateDescription t)) # describe_keys rest"

text \<open>
  \<open>getInvalidDescription\<close> reads \<open>messages[0]\<close> into the variable the source
  calls \<open>lastMessage\<close>, and renders it; it returns \<open>null\<close> (\<open>None\<close>) when no
  message is held.
\<close>

definition getInvalidDescription :: "message list \<Rightarrow> string option" where
  "getInvalidDescription messages0 =
     (let messages = getMessages messages0 in
      if length messages = 0 then None
      else (let lastMessage = messages ! 0 in
            Some (case lastMessage of
                InvalidKeys tks oks \<Rightarrow>
                  ''invalid keys, expecting ['' @ js_join '','' tks @ ''] but got [''
                  @ js_join '','' oks @ ''] (unexpected: [''
                  @ js_join '','' (difference oks tks) @ '']) (missing: [''
                  @ js_join '','' (difference tks oks) @ ''])''
              | InvalidValue k node v \<Rightarrow>
                  ''invalid value for key '' @ [CHR 0x27] @ k @ [CHR 0x27] @ '': '' @ [CHR 0x27]
                  @ plus_string (JSON_stringify v) @ [CHR 0x27]
                  @ ''; expectation: '' @ plus_string (getTemplateDescription node))))"

section \<open>isISODate\<close>

text \<open>
  The regular expression of \<open>isISODate\<close>, in a small regular expression language:
  \<open>\d\<close> is \<open>Digit\<close>, a character is \<open>Chr\<close>, \<open>r{n}\<close> is \<open>times n r\<close>, \<open>(r)?\<close>
  is \<open>Opt r\<close>. \<open>rests r s\<close> lists what is left of \<open>s\<close> after each way of
  matching \<open>r\<close> at its start, in the order a backtracking matcher tries them; the
  anchors \<open>^\<close> and \<open>$\<close> (no flags) ask for a match of the whole string.
\<close>

datatype regex = Digit | Chr char | Seq regex regex | Opt regex | Empty

fun times :: "nat \<Rightarrow> regex \<Rightarrow> regex" where
  "times 0 r = Empty"
| "times (Suc n) r = Seq r (times n r)"

fun seqs :: "regex list \<Rightarrow> regex" where
  "seqs [] = Empty"
| "seqs (r # rs) = Seq r (seqs rs)"

definition is_digit :: "char \<Rightarrow> bool" where
  "is_digit c = (c \<in> set ''0123456789'')"

fun rests :: "regex \<Rightarrow> string \<Rightarrow> string list" where
  "rests Digit s = (case s of [] \<Rightarrow> [] | c # cs \<Rightarrow> if is_digit c then [cs] else [])"
| "rests (Chr a) s = (case s of [] \<Rightarrow> [] | c # cs \<Rightarrow> if c = a then [cs] else [])"
| "rests (Seq r1 r2) s = concat (map (rests r2) (rests r1 s))"
| "rests (Opt r) s = rests r s @ [s]"
| "rests Empty s = [s]"

definition regexp_test :: "regex \<Rightarrow> string \<Rightarrow> bool" where
  "regexp_test r s = ([] \<in> set (rests r s))"

definition regexp :: regex where
  "regexp = seqs [times 4 Digit, Chr CHR ''-'', times 2 Digit, Chr CHR ''-'', times 2 Digit,
                  Chr CHR ''T'', times 2 Digit, Chr CHR '':'', times 2 Digit, Chr CHR '':'',
                  times 2 Digit, Chr CHR ''.'', times 3 Digit, Chr CHR ''Z'',
                  Opt (seqs [Chr CHR ''+'', times 2 Digit, Chr CHR '':'', times 2 Digit])]"

definition isISODate :: "jsval \<Rightarrow> bool" where
  "isISODate v = (isString v \<and> (case v of V (Str s) \<Rightarrow> regexp_test regexp s | _ \<Rightarrow> False))"

section \<open>Notions used in the statements\<close>

text \<open>
  \<open>accepts f v\<close>: the predicate \<open>f\<close> returns true on \<open>v\<close>. The result of a call
  does not depend on the content of \<open>messages\<close> (lemma \<open>fst_call\<close> below), so the
  call is made with no message held.
\<close>

definition accepts :: "predicate \<Rightarrow> jsval \<Rightarrow> bool" where
  "accepts f v = fst (call f v [])"

text \<open>Value equality of two data values: equal up to the identities of arrays and objects.\<close>

fun erase_refs :: "jsval \<Rightarrow> jsval" where
  "erase_refs (V s) = V s"
| "erase_refs (Arr r xs) = Arr 0 (map erase_refs xs)"
| "erase_refs (Obj r kvs) = Obj 0 (map (\<lambda>(k, x). (k, erase_refs x)) kvs)"

definition value_equal :: "jsval \<Rightarrow> jsval \<Rightarrow> bool" where
  "value_equal a b = (erase_refs a = erase_refs b)"

text \<open>
  The date format in the words of the specification: \<open>YYYY-MM-DDTHH:MM:SS.mmmZ\<close>,
  optionally followed by an offset \<open>sHH:MM\<close> whose sign \<open>s\<close> is one of \<open>signs\<close>.
\<close>

definition digits :: "string \<Rightarrow> bool" where
  "digits s = list_all is_digit s"

definition date_time_part :: "string \<Rightarrow> bool" where
  "date_time_part s =
     (length s = 24
      \<and> digits (take 4 s) \<and> s ! 4 = CHR ''-''
      \<and> digits (take 2 (drop 5 s)) \<and> s ! 7 = CHR ''-''
      \<and> digits (take 2 (drop 8 s)) \<and> s ! 10 = CHR ''T''
      \<and> digits (take 2 (drop 11 s)) \<and> s ! 13 = CHR '':''
      \<and> digits (take 2 (drop 14 s)) \<and> s ! 16 = CHR '':''
      \<and> digits (take 2 (drop 17 s)) \<and> s ! 19 = CHR ''.''
      \<and> digits (take 3 (drop 20 s)) \<and> s ! 23 = CHR ''Z'')"

definition offset_part :: "char list \<Rightarrow> string \<Rightarrow> bool" where
  "offset_part signs s =
     (length s = 6 \<and> s ! 0 \<in> set signs
      \<and> digits (take 2 (drop 1 s)) \<and> s ! 3 = CHR '':''
      \<and> digits (take 2 (drop 4 s)))"

definition iso_date_format :: "char list \<Rightarrow> string \<Rightarrow> bool" where
  "iso_date_format signs s =
     (date_time_part (take 24 s) \<and> (drop 24 s = [] \<or> offset_part signs (drop 24 s)))"


text \<open>
  Flat templates without an object predicate: every value is a literal or a
  predicate in which no closure of \<open>obj\<close> or \<open>recObj\<close> occurs; no value is a
  nested plain map.
\<close>

fun object_free :: "predicate \<Rightarrow> bool"
and object_free_funcs :: "predicate list \<Rightarrow> bool" where
  "object_free (Prim name p) = True"
| "object_free (OptionalFn func) = object_free func"
| "object_free (NullableFn func) = object_free func"
| "object_free (ExistsFn args) = True"
| "object_free (ObjectFn template loose) = False"
| "object_free (ArrayFn templateValues loose) = False"
| "object_free (ArrFn func minItems maxItems) = object_free func"
| "object_free (HashFn func minItems maxItems) = object_free func"
| "object_free (AndFn funcs) = object_free_funcs funcs"
| "object_free (OrFn funcs) = object_free_funcs funcs"
| "object_free (ChoiceFn options) = True"
| "object_free_funcs [] = True"
| "object_free_funcs (f # fs) = (object_free f \<and> object_free_funcs fs)"

fun object_free_tmpl :: "tmpl \<Rightarrow> bool"
and object_free_keys :: "(string \<times> tmpl) list \<Rightarrow> bool" where
  "object_free_tmpl (Lit s) = True"
| "object_free_tmpl (TArr ts) = True"
| "object_free_tmpl (TObj m) = False"
| "object_free_tmpl (Fn p) = object_free p"
| "object_free_keys [] = True"
| "object_free_keys ((k, t) # rest) = (object_free_tmpl t \<and> object_free_keys rest)"

text \<open>
  Templates without arrays: no array and no closure \<open>array\<close> (made by \<open>recObj\<close>
  from an array) occurs anywhere in them.
\<close>

fun array_free :: "predicate \<Rightarrow> bool"
and array_free_tmpl :: "tmpl \<Rightarrow> bool"
and array_free_funcs :: "predicate list \<Rightarrow> bool"
and array_free_items :: "tmpl list \<Rightarrow> bool"
and array_free_keys :: "(string \<times> tmpl) list \<Rightarrow> bool" where
  "array_free (Prim name p) = True"
| "array_free (OptionalFn func) = array_free func"
| "array_free (NullableFn func) = array_free func"
| "array_free (ExistsFn args) = array_free_items args"
| "array_free (ObjectFn template loose) = array_free_keys template"
| "array_free (ArrayFn templateValues loose) = False"
| "array_free (ArrFn func minItems maxItems) = array_free func"
| "array_free (HashFn func minItems maxItems) = array_free func"
| "array_free (AndFn funcs) = array_free_funcs funcs"
| "array_free (OrFn funcs) = array_free_funcs funcs"
| "array_free (ChoiceFn options) = True"
| "array_free_tmpl (Lit s) = True"
| "array_free_tmpl (TArr ts) = False"
| "array_free_tmpl (TObj m) = array_free_keys m"
| "array_free_tmpl (Fn p) = array_free p"
| "array_free_funcs [] = True"
| "array_free_funcs (f # fs) = (array_free f \<and> array_free_funcs fs)"
| "array_free_items [] = True"
| "array_free_items (t # ts) = (array_free_tmpl t \<and> array_free_items ts)"
| "array_free_keys [] = True"
| "array_free_keys ((k, t) # rest) = (array_free_tmpl t \<and> array_free_keys rest)"

section \<open>Auxiliary facts\<close>

subsection \<open>Calls only append to the messages\<close>

lemma call_prefix:
  "call p v (m @ ms) = apsnd ((@) m) (call p v ms)"
  "every f xs (m @ ms) = apsnd ((@) m) (every f xs ms)"
  "each_value f kvs valid (m @ ms) = apsnd ((@) m) (each_value f kvs valid ms)"
  "and_loop fs v (m @ ms) = apsnd ((@) m) (and_loop fs v ms)"
  "or_loop fs v (m @ ms) = apsnd ((@) m) (or_loop fs v ms)"
  "congruence_test loose t object (m @ ms) = apsnd ((@) m) (congruence_test loose t object ms)"
  "test_keys loose t okvs (m @ ms) = apsnd ((@) m) (test_keys loose t okvs ms)"
  "test_node loose k node v (m @ ms) = apsnd ((@) m) (test_node loose k node v ms)"
proof (induct p v ms and f xs ms and f kvs valid ms and fs v ms and fs v ms
       and loose t object ms and loose t okvs ms and loose k node v ms
       arbitrary: m and m and m and m and m and m and m and m
       rule: call_every_each_value_and_loop_or_loop_congruence_test_test_keys_test_node.induct)
qed (auto simp: on_invalid_keys_def on_invalid_value_def
       split: prod.splits jsval.splits option.splits)

lemma call_from_empty: "call p v ms = apsnd ((@) ms) (call p v [])"
  using call_prefix(1)[of p v ms "[]"] by simp

lemma fst_call: "fst (call p v ms) = accepts p v"
  by (simp add: accepts_def call_from_empty[of p v ms])

lemma fst_every: "fst (every f xs ms) = list_all (accepts f) xs"
proof (induction xs arbitrary: ms)
  case Nil
  show ?case by simp
next
  case (Cons x xs)
  obtain r ms' where c: "call f x ms = (r, ms')" by (cases "call f x ms")
  have "r = accepts f x" using fst_call[of f x ms] c by simp
  then show ?case using c Cons.IH[of ms'] by simp
qed

subsection \<open>indexOf\<close>

lemma indexOf_ge: "indexOf options v \<ge> -1"
  by (induction options) (auto simp: Let_def)

lemma indexOf_iff: "(indexOf options v \<noteq> -1) = (\<exists>x \<in> set options. strict_equal x v)"
proof (induction options)
  case Nil
  show ?case by simp
next
  case (Cons a options)
  show ?case using Cons.IH indexOf_ge[of options v] by (auto simp: Let_def)
qed

lemma strict_equal_scalar: "strict_equal x (V s) = (x = V s)"
  by (cases x) auto

subsection \<open>The regular expression\<close>

lemma rests_times_Digit:
  "rests (times n Digit) s = (if n \<le> length s \<and> digits (take n s) then [drop n s] else [])"
proof (induction n arbitrary: s)
  case 0
  show ?case by (simp add: digits_def)
next
  case (Suc n)
  show ?case by (cases s) (auto simp: Suc.IH digits_def)
qed

lemma rests_Chr: "rests (Chr a) s = (if 1 \<le> length s \<and> s ! 0 = a then [drop 1 s] else [])"
  by (cases s) auto

lemma concat_map_if: "concat (map f (if c then [x] else [])) = (if c then f x else [])"
  by simp

lemma rests_regexp:
  "([] \<in> set (rests regexp s)) =
     (4 \<le> length s \<and> digits (take 4 s) \<and>
      1 \<le> length (drop 4 s) \<and> drop 4 s ! 0 = CHR ''-'' \<and>
      2 \<le> length (drop 5 s) \<and> digits (take 2 (drop 5 s)) \<and>
      1 \<le> length (drop 7 s) \<and> drop 7 s ! 0 = CHR ''-'' \<and>
      2 \<le> length (drop 8 s) \<and> digits (take 2 (drop 8 s)) \<and>
      1 \<le> length (drop 10 s) \<and> drop 10 s ! 0 = CHR ''T'' \<and>
      2 \<le> length (drop 11 s) \<and> digits (take 2 (drop 11 s)) \<and>
      1 \<le> length (drop 13 s) \<and> drop 13 s ! 0 = CHR '':'' \<and>
      2 \<le> length (drop 14 s) \<and> digits (take 2 (drop 14 s)) \<and>
      1 \<le> length (drop 16 s) \<and> drop 16 s ! 0 = CHR '':'' \<and>
      2 \<le> length (drop 17 s) \<and> digits (take 2 (drop 17 s)) \<and>
      1 \<le> length (drop 19 s) \<and> drop 19 s ! 0 = CHR ''.'' \<and>
      3 \<le> length (drop 20 s) \<and> digits (take 3 (drop 20 s)) \<and>
      1 \<le> length (drop 23 s) \<and> drop 23 s ! 0 = CHR ''Z'' \<and>
      (drop 24 s = [] \<or>
       drop 30 s = [] \<and>
       1 \<le> length (drop 24 s) \<and> drop 24 s ! 0 = CHR ''+'' \<and>
       2 \<le> length (drop 25 s) \<and> digits (take 2 (drop 25 s)) \<and>
       1 \<le> length (drop 27 s) \<and> drop 27 s ! 0 = CHR '':'' \<and>
       2 \<le> length (drop 28 s) \<and> digits (take 2 (drop 28 s))))"
  unfolding regexp_def seqs.simps rests.simps(3,4,5) rests_times_Digit rests_Chr concat_map_if
  by simp

lemma offset_lengths:
  assumes "24 \<le> length s"
  shows "(length s \<le> 30 \<and> Suc 0 \<le> length s - 24 \<and> A \<and> 2 \<le> length s - 25 \<and> D1 \<and>
          Suc 0 \<le> length s - 27 \<and> drop 27 s ! 0 = c \<and> 2 \<le> length s - 28 \<and> D2)
         = (length s - 24 = 6 \<and> A \<and> D1 \<and> s ! 27 = c \<and> D2)"
proof (cases "length s = 30")
  case True
  then show ?thesis by (simp add: nth_drop)
next
  case False
  with assms show ?thesis by auto
qed

lemma regexp_test_iff: "regexp_test regexp s = iso_date_format ''+'' s"
proof (cases "24 \<le> length s")
  case False
  then show ?thesis
    unfolding regexp_test_def rests_regexp
    by (simp add: iso_date_format_def date_time_part_def)
next
  case True
  then have L: "Suc 0 \<le> length s - 4" "2 \<le> length s - 5" "Suc 0 \<le> length s - 7"
    "2 \<le> length s - 8" "Suc 0 \<le> length s - 10" "2 \<le> length s - 11"
    "Suc 0 \<le> length s - 13" "2 \<le> length s - 14" "Suc 0 \<le> length s - 16"
    "2 \<le> length s - 17" "Suc 0 \<le> length s - 19" "3 \<le> length s - 20"
    "Suc 0 \<le> length s - 23"
    by simp_all
  show ?thesis
    unfolding regexp_test_def rests_regexp
    using True
    by (simp add: iso_date_format_def date_time_part_def offset_part_def drop_take L
          offset_lengths[OF True])
qed

lemma isISODate_iff: "isISODate v = (\<exists>s. v = V (Str s) \<and> iso_date_format ''+'' s)"
proof (cases v)
  case (V x)
  then show ?thesis by (cases x) (simp_all add: isISODate_def regexp_test_iff)
qed (simp_all add: isISODate_def)

subsection \<open>A call that returns true on a template without or emits nothing\<close>




subsection \<open>recObj and validateObject on a plain object\<close>

lemma recObj_plain:
  "recObj (TObj m) loose = Inr (recObj_keys loose m, obj (recObj_keys loose m) (Some loose))"
  by (simp add: recObj_def Let_def)



lemma recObj_value_idem: "recObj_value loose' (recObj_value loose t) = recObj_value loose t"
  by (cases t) simp_all

lemma recObj_keys_idem: "recObj_keys loose' (recObj_keys loose m) = recObj_keys loose m"
  by (induction m) (auto simp: recObj_value_idem)



text \<open>
  The nested call of \<open>recObj\<close> in its loop and the call in the closure
  \<open>array\<close>, as the source writes them.
\<close>

lemma recObj_value_nested:
  "recObj (TObj m) loose = Inr (m', f) \<Longrightarrow> recObj_value loose (TObj m) = Fn f"
  by (auto simp: recObj_plain obj_def)

lemma array_closure_call:
  assumes "recObj (TObj (to_object 0 templateValues)) loose = Inr (obj1, f)"
  shows "call (ArrayFn templateValues loose) (Arr r xs) ms = call f (Obj 0 (to_object 0 xs)) ms"
proof -
  from assms have "f = ObjectFn (recObj_keys loose (to_object 0 templateValues)) (Some loose)"
    by (auto simp: recObj_plain obj_def)
  then show ?thesis
    by (simp only: call.simps(6) jsval.case)
qed

lemma array_closure_again:
  "recObj (TObj (to_object 0 templateValues)) loose = Inr (obj1, f) \<Longrightarrow>
   recObj (TObj obj1) loose = Inr (obj1, f)"
  by (auto simp: recObj_plain recObj_keys_idem)

lemma validateObject_plain:
  "validateObject template (Obj r kvs) loose recursive ms0 =
     (if truthy recursive
      then \<lparr>returned = Inr (fst (congruence_test (truthy loose) (recObj_keys loose template)
                                  (Obj r kvs) [])),
            template_after = recObj_keys loose template,
            messages_after = snd (congruence_test (truthy loose) (recObj_keys loose template)
                                    (Obj r kvs) [])\<rparr>
      else \<lparr>returned = Inr (fst (congruence_test (truthy loose) template (Obj r kvs) [])),
            template_after = template,
            messages_after = snd (congruence_test (truthy loose) template (Obj r kvs) [])\<rparr>)"
  by (simp add: validateObject_def recObj_plain obj_def similar_def congruent_def
        split: prod.splits)

lemma validateObject_other:
  "\<not> isPlainObject object \<Longrightarrow>
   validateObject template object loose recursive ms0 =
     \<lparr>returned = Inr False, template_after = template, messages_after = []\<rparr>"
  by (simp add: validateObject_def)

subsection \<open>Flat templates without object predicates emit at most one record\<close>

lemma at_most_one:
  "object_free p \<Longrightarrow> snd (call p v ms) = ms"
  "object_free f \<Longrightarrow> snd (every f xs ms) = ms"
  "object_free f \<Longrightarrow> snd (each_value f kvs valid ms) = ms"
  "object_free_funcs fs \<Longrightarrow> snd (and_loop fs v ms) = ms"
  "object_free_funcs fs \<Longrightarrow> snd (or_loop fs v ms) = ms"
  "object_free_keys t \<Longrightarrow>
     (fst (congruence_test loose t object ms) \<longrightarrow> snd (congruence_test loose t object ms) = ms)
     \<and> (\<exists>e. snd (congruence_test loose t object ms) = ms @ e \<and> length e \<le> 1)"
  "object_free_keys t \<Longrightarrow>
     (fst (test_keys loose t okvs ms) \<longrightarrow> snd (test_keys loose t okvs ms) = ms)
     \<and> (\<exists>e. snd (test_keys loose t okvs ms) = ms @ e \<and> length e \<le> 1)"
  "object_free_tmpl node \<Longrightarrow>
     (fst (test_node loose k node v ms) \<longrightarrow> snd (test_node loose k node v ms) = ms)
     \<and> (\<exists>e. snd (test_node loose k node v ms) = ms @ e \<and> length e \<le> 1)"
proof (induct p v ms and f xs ms and f kvs valid ms and fs v ms and fs v ms
       and loose t object ms and loose t okvs ms and loose k node v ms
       rule: call_every_each_value_and_loop_or_loop_congruence_test_test_keys_test_node.induct)
qed (auto simp: on_invalid_keys_def on_invalid_value_def
       split: prod.splits jsval.splits option.splits if_splits)

subsection \<open>The engine looks the template keys up in the object\<close>






section \<open>Properties\<close>

subsection \<open>and() and or() without arguments\<close>

text \<open>
  Claim C10. Called with zero arguments, \<open>and()\<close> returns the constant-true predicate
  and \<open>or()\<close> the constant-false predicate: on every value, with every content
  of \<open>messages\<close>, the first returns true and the second false, and neither
  touches \<open>messages\<close>.
\<close>

theorem and_or_no_arguments:
  "call (and_pred []) v ms = (True, ms) \<and> call (or_pred []) v ms = (False, ms)"
  by (simp add: and_pred_def or_pred_def)

subsection \<open>recObj on an argument that is not a plain object\<close>

text \<open>
  Claim C9. For every argument that is not a plain map, \<open>recObj\<close> throws
  (the string 'recObj must be called on a plain object') instead of returning a
  template; in particular it returns no value.
\<close>

theorem recObj_throws:
  "\<not> isPlainObject_tmpl t \<Longrightarrow>
     recObj t loose = Inl (Thrown ''recObj must be called on a plain object'')
     \<and> (\<forall>x. recObj t loose \<noteq> Inr x)"
  by (simp add: recObj_def)

theorem recObj_throws_witness:
  "\<not> isPlainObject_tmpl (TArr [Lit (Num 1)])
   \<and> recObj (TArr [Lit (Num 1)]) (Bool True)
       = Inl (Thrown ''recObj must be called on a plain object'')
   \<and> (\<forall>x. recObj (TArr [Lit (Num 1)]) (Bool True) \<noteq> Inr x)"
  using recObj_throws[of "TArr [Lit (Num 1)]" "Bool True"] by simp

subsection \<open>validateObject on a candidate that is not a plain object\<close>

text \<open>
  Claim C8. For every template and options, if the candidate is not a plain map at
  the top level, \<open>validateObject\<close> returns false and records no mismatch, whatever
  \<open>messages\<close> held before the call, so that \<open>getInvalidDescription\<close> afterwards
  returns null.
\<close>

theorem validateObject_not_plain:
  "\<not> isPlainObject object \<Longrightarrow>
     returned (validateObject template object loose recursive ms0) = Inr False
   \<and> messages_after (validateObject template object loose recursive ms0) = []
   \<and> getInvalidDescription
         (messages_after (validateObject template object loose recursive ms0)) = None"
  by (simp add: validateObject_def getInvalidDescription_def getMessages_def)

theorem validateObject_not_plain_witness:
  "\<not> isPlainObject (Arr 1 [V (Str ''x'')])
   \<and> returned (validateObject [(''a'', Fn (Prim ''isString'' isString))]
        (Arr 1 [V (Str ''x'')]) Undefined Undefined [InvalidKeys [''a''] []]) = Inr False
   \<and> messages_after (validateObject [(''a'', Fn (Prim ''isString'' isString))]
        (Arr 1 [V (Str ''x'')]) Undefined Undefined [InvalidKeys [''a''] []]) = []
   \<and> getInvalidDescription (messages_after (validateObject [(''a'', Fn (Prim ''isString'' isString))]
        (Arr 1 [V (Str ''x'')]) Undefined Undefined [InvalidKeys [''a''] []])) = None"
  using validateObject_not_plain[of "Arr 1 [V (Str ''x'')]"
      "[(''a'', Fn (Prim ''isString'' isString))]" Undefined Undefined "[InvalidKeys [''a''] []]"]
  by (simp add: getInvalidDescription_def getMessages_def)

subsection \<open>arr\<close>

text \<open>
  Claim C5. For every predicate \<open>f\<close>, bounds \<open>min\<close> (default 0) and \<open>max\<close>
  (default unbounded) and value \<open>v\<close>, \<open>arr(f, min, max)\<close> returns true on \<open>v\<close> if
  and only if \<open>v\<close> is an array, \<open>min \<le> length(v) \<le> max\<close>, and every element of
  \<open>v\<close> satisfies \<open>f\<close>. In particular \<open>arr(isString, 1, 3)\<close> accepts
  \<open>["a","b"]\<close> and rejects \<open>[]\<close>, \<open>["a","b","c","d"]\<close> and \<open>["a", 5]\<close>.
\<close>

theorem arr_accepts:
  "accepts (arr f minItems maxItems) v =
     (isArray v
      \<and> (case minItems of None \<Rightarrow> 0 | Some n \<Rightarrow> n) \<le> int (length (elements v))
      \<and> (case maxItems of None \<Rightarrow> True | Some n \<Rightarrow> int (length (elements v)) \<le> n)
      \<and> (\<forall>x \<in> set (elements v). accepts f x))
   \<and> accepts (arr (Prim ''isString'' isString) (Some 1) (Some 3))
        (Arr 0 [V (Str ''a''), V (Str ''b'')])
   \<and> \<not> accepts (arr (Prim ''isString'' isString) (Some 1) (Some 3)) (Arr 0 [])
   \<and> \<not> accepts (arr (Prim ''isString'' isString) (Some 1) (Some 3))
        (Arr 0 [V (Str ''a''), V (Str ''b''), V (Str ''c''), V (Str ''d'')])
   \<and> \<not> accepts (arr (Prim ''isString'' isString) (Some 1) (Some 3))
        (Arr 0 [V (Str ''a''), V (Num 5)])"
proof -
  have "accepts (arr f minItems maxItems) v =
     (isArray v
      \<and> (case minItems of None \<Rightarrow> 0 | Some n \<Rightarrow> n) \<le> int (length (elements v))
      \<and> (case maxItems of None \<Rightarrow> True | Some n \<Rightarrow> int (length (elements v)) \<le> n)
      \<and> (\<forall>x \<in> set (elements v). accepts f x))"
    by (cases v) (auto simp: accepts_def arr_def fst_every list_all_iff split: option.splits)
  then show ?thesis by (simp add: accepts_def arr_def)
qed

theorem arr_accepts_witness:
  "accepts (arr (Prim ''isNumber'' isNumber) None (Some 2)) (Arr 7 [V (Num 1), V (Num 2)])
   \<and> isArray (Arr 7 [V (Num 1), V (Num 2)])
   \<and> int (length (elements (Arr 7 [V (Num 1), V (Num 2)]))) \<le> 2
   \<and> accepts (Prim ''isNumber'' isNumber) (V (Num 1))
   \<and> accepts (Prim ''isNumber'' isNumber) (V (Num 2))"
  using arr_accepts[of "Prim ''isNumber'' isNumber" None "Some 2" "Arr 7 [V (Num 1), V (Num 2)]"]
  by (simp add: accepts_def)

subsection \<open>choice\<close>

text \<open>
  Claim C6, as amended. For every options sequence and every value \<open>v\<close>,
  \<open>choice(options)\<close> returns true on \<open>v\<close> if and only if \<open>v\<close> is strictly equal
  (\<open>===\<close>, the comparison of \<open>indexOf\<close>) to some element of \<open>options\<close>: for a
  string, boolean, number, null or undefined that is equality of values, so
  \<open>choice(['x','y'])\<close> accepts \<open>'x'\<close> and rejects \<open>'z'\<close>; an array or object is
  accepted only if it is the very same object as an element of \<open>options\<close>.
\<close>

theorem choice_accepts:
  "accepts (choice options) v = (\<exists>x \<in> set options. strict_equal x v)
   \<and> accepts (choice options) (V s) = (V s \<in> set options)
   \<and> accepts (choice [V (Str ''x''), V (Str ''y'')]) (V (Str ''x''))
   \<and> \<not> accepts (choice [V (Str ''x''), V (Str ''y'')]) (V (Str ''z''))"
  by (auto simp: accepts_def choice_def indexOf_iff strict_equal_scalar)

text \<open>
  The claim as stated (equality by value) fails on an array that is equal to an
  option but is not the same object.
\<close>

theorem choice_value_equal_counterexample:
  "value_equal (Arr 1 [V (Num 1), V (Num 2)]) (Arr 2 [V (Num 1), V (Num 2)])
   \<and> \<not> accepts (choice [Arr 1 [V (Num 1), V (Num 2)]]) (Arr 2 [V (Num 1), V (Num 2)])"
  by (simp add: value_equal_def accepts_def choice_def)

subsection \<open>isISODate\<close>

text \<open>
  Claim C2, as amended. For every value \<open>v\<close>, \<open>isISODate(v)\<close> returns true if and
  only if \<open>v\<close> is a string of the form \<open>YYYY-MM-DDTHH:MM:SS.mmmZ\<close> (four-digit year;
  two-digit month, day, hour, minute, second; three-digit millisecond; literal
  \<open>T\<close> and \<open>Z\<close>), optionally followed by an offset \<open>+HH:MM\<close> with a plus sign.
  So \<open>2015-04-28T10:00:00.000Z\<close> and \<open>2015-04-28T10:00:00.000Z+02:00\<close> pass and
  \<open>2015-04-28\<close> fails.
\<close>

theorem isISODate_format:
  "isISODate v = (\<exists>s. v = V (Str s) \<and> iso_date_format ''+'' s)
   \<and> isISODate (V (Str ''2015-04-28T10:00:00.000Z''))
   \<and> isISODate (V (Str ''2015-04-28T10:00:00.000Z+02:00''))
   \<and> \<not> isISODate (V (Str ''2015-04-28''))"
proof -
  have "iso_date_format ''+'' ''2015-04-28T10:00:00.000Z''"
    by (simp add: iso_date_format_def date_time_part_def offset_part_def digits_def is_digit_def)
  moreover have "iso_date_format ''+'' ''2015-04-28T10:00:00.000Z+02:00''"
    by (simp add: iso_date_format_def date_time_part_def offset_part_def digits_def is_digit_def)
  moreover have "\<not> iso_date_format ''+'' ''2015-04-28''"
    by (simp add: iso_date_format_def date_time_part_def)
  ultimately show ?thesis by (simp add: isISODate_iff)
qed

text \<open>
  The claim as stated (an offset with either sign) fails on an offset with a minus
  sign: the string has the stated form and \<open>isISODate\<close> rejects it.
\<close>

theorem isISODate_minus_counterexample:
  "iso_date_format ''+-'' ''2015-04-28T10:00:00.000Z-02:00''
   \<and> \<not> isISODate (V (Str ''2015-04-28T10:00:00.000Z-02:00''))"
proof -
  have "iso_date_format ''+-'' ''2015-04-28T10:00:00.000Z-02:00''"
    by (simp add: iso_date_format_def date_time_part_def offset_part_def digits_def is_digit_def)
  moreover have "\<not> iso_date_format ''+'' ''2015-04-28T10:00:00.000Z-02:00''"
    by (simp add: iso_date_format_def date_time_part_def offset_part_def digits_def is_digit_def)
  ultimately show ?thesis by (simp add: isISODate_iff)
qed

subsection \<open>Messages after a call that returns true\<close>




subsection \<open>Loose and exact key sets\<close>




subsection \<open>recObj assigns to its template\<close>




subsection \<open>The messages retained by a call\<close>

text \<open>
  Claim C1, as amended. A validation call drops the records of earlier calls and
  retains the records emitted during the call. When the call is not recursive and
  the template is flat, with no nested map and no object predicate (\<open>obj\<close>,
  \<open>recObj\<close>) among its values, at most one record is retained.
  \<open>getInvalidDescription\<close> returns null exactly when no record is retained, and
  when one record is retained it renders that record: the expected and actual
  keys with the unexpected and the missing ones, or the key, the value and the
  description of the template node.
\<close>

theorem retained_messages:
  "messages_after (validateObject template object loose recursive ms0)
     = messages_after (validateObject template object loose recursive [])
   \<and> (object_free_keys template \<and> \<not> truthy recursive \<longrightarrow>
        length (messages_after (validateObject template object loose recursive ms0)) \<le> 1)
   \<and> (getInvalidDescription (messages_after (validateObject template object loose recursive ms0)) = None)
     = (messages_after (validateObject template object loose recursive ms0) = [])
   \<and> getInvalidDescription [InvalidKeys tks oks]
     = Some (''invalid keys, expecting ['' @ js_join '','' tks @ ''] but got [''
             @ js_join '','' oks @ ''] (unexpected: [''
             @ js_join '','' (difference oks tks) @ '']) (missing: [''
             @ js_join '','' (difference tks oks) @ ''])'')
   \<and> getInvalidDescription [InvalidValue k node v]
     = Some (''invalid value for key '' @ [CHR 0x27] @ k @ [CHR 0x27] @ '': '' @ [CHR 0x27]
             @ plus_string (JSON_stringify v) @ [CHR 0x27]
             @ ''; expectation: '' @ plus_string (getTemplateDescription node))"
proof (intro conjI impI)
  show "messages_after (validateObject template object loose recursive ms0)
     = messages_after (validateObject template object loose recursive [])"
    by (simp add: validateObject_def)
next
  assume a: "object_free_keys template \<and> \<not> truthy recursive"
  show "length (messages_after (validateObject template object loose recursive ms0)) \<le> 1"
  proof (cases object)
    case (Obj r kvs)
    obtain e where "snd (congruence_test (truthy loose) template (Obj r kvs) []) = [] @ e"
        "length e \<le> 1"
      using a at_most_one(6)[of template "truthy loose" "Obj r kvs" "[]"] by blast
    then show ?thesis
      using a unfolding Obj validateObject_plain by (simp del: congruence_test.simps)
  qed (simp_all add: validateObject_other)
next
  show "(getInvalidDescription (messages_after (validateObject template object loose recursive ms0)) = None)
     = (messages_after (validateObject template object loose recursive ms0) = [])"
    by (simp add: getInvalidDescription_def getMessages_def Let_def)
qed (simp_all add: getInvalidDescription_def getMessages_def)


theorem retained_messages_witness:
  "object_free_keys [(''a'', Fn (Prim ''isString'' isString))] \<and> \<not> truthy Undefined
   \<and> length (messages_after (validateObject [(''a'', Fn (Prim ''isString'' isString))]
        (Obj 0 [(''a'', V (Num 1))]) Undefined Undefined [InvalidKeys [''z''] []])) \<le> 1
   \<and> messages_after (validateObject [(''a'', Fn (Prim ''isString'' isString))]
        (Obj 0 [(''a'', V (Num 1))]) Undefined Undefined [InvalidKeys [''z''] []])
     = [InvalidValue ''a'' (Fn (Prim ''isString'' isString)) (V (Num 1))]"
proof -
  have h: "object_free_keys [(''a'', Fn (Prim ''isString'' isString))] \<and> \<not> truthy Undefined"
    by simp
  have m: "messages_after (validateObject [(''a'', Fn (Prim ''isString'' isString))]
        (Obj 0 [(''a'', V (Num 1))]) Undefined Undefined [InvalidKeys [''z''] []])
     = [InvalidValue ''a'' (Fn (Prim ''isString'' isString)) (V (Num 1))]"
    by (simp add: validateObject_def congruent_def get_property_def on_invalid_value_def)
  show ?thesis
    using h m retained_messages[of "[(''a'', Fn (Prim ''isString'' isString))]"
        "Obj 0 [(''a'', V (Num 1))]" Undefined Undefined "[InvalidKeys [''z''] []]"]
    by blast
qed

text \<open>
  The claim as stated (at most one record, the most recent one, which
  \<open>getInvalidDescription\<close> renders) fails on a nested object predicate: the
  template \<open>{a: obj({b: isString})}\<close> against \<open>{a: {b: 1}}\<close> leaves two records,
  the inner one for \<open>b\<close> first, and \<open>getInvalidDescription\<close> renders
  \<open>messages[0]\<close>, the record for \<open>b\<close>, not the most recent one for \<open>a\<close>.
\<close>

theorem nested_object_counterexample:
  "messages_after (validateObject
      [(''a'', Fn (obj [(''b'', Fn (Prim ''isString'' isString))] None))]
      (Obj 0 [(''a'', Obj 1 [(''b'', V (Num 1))])]) Undefined Undefined [])
     = [InvalidValue ''b'' (Fn (Prim ''isString'' isString)) (V (Num 1)),
        InvalidValue ''a'' (Fn (obj [(''b'', Fn (Prim ''isString'' isString))] None))
          (Obj 1 [(''b'', V (Num 1))])]
   \<and> getInvalidDescription (messages_after (validateObject
      [(''a'', Fn (obj [(''b'', Fn (Prim ''isString'' isString))] None))]
      (Obj 0 [(''a'', Obj 1 [(''b'', V (Num 1))])]) Undefined Undefined []))
     = Some (''invalid value for key '' @ [CHR 0x27] @ ''b'' @ [CHR 0x27] @ '': '' @ [CHR 0x27]
             @ ''1'' @ [CHR 0x27] @ ''; expectation: isString()'')
   \<and> getInvalidDescription
        [InvalidValue ''a'' (Fn (obj [(''b'', Fn (Prim ''isString'' isString))] None))
          (Obj 1 [(''b'', V (Num 1))])]
     = Some (''invalid value for key '' @ [CHR 0x27] @ ''a'' @ [CHR 0x27] @ '': '' @ [CHR 0x27]
             @ ''{'' @ [CHR 0x22] @ ''b'' @ [CHR 0x22] @ '':1}'' @ [CHR 0x27]
             @ ''; expectation: object({b: isString()})'')
   \<and> getInvalidDescription (messages_after (validateObject
      [(''a'', Fn (obj [(''b'', Fn (Prim ''isString'' isString))] None))]
      (Obj 0 [(''a'', Obj 1 [(''b'', V (Num 1))])]) Undefined Undefined []))
     \<noteq> getInvalidDescription
        [InvalidValue ''a'' (Fn (obj [(''b'', Fn (Prim ''isString'' isString))] None))
          (Obj 1 [(''b'', V (Num 1))])]"
  by (simp add: validateObject_def congruent_def get_property_def obj_def
        on_invalid_value_def getInvalidDescription_def getMessages_def
        string_of_int_def number_digits_def string_of_nat.simps json_quote_def json_escape_def)


end
